theory Spec2Isabelle
  imports Complex_Main "HOL-Library.Multiset"
begin

section \<open>Data model\<close>

text \<open>
  The notebook holds each data set in a pandas DataFrame with the 26 named columns
  \<^verbatim>\<open>columns = ['id', 'cycle', 'setting1', 'setting2', 'setting3', 's1', ..., 's21']\<close>.
  A frame is modelled as the list of its rows, in row order. A row keeps the two integer
  columns \<open>id\<close> and \<open>cycle\<close> apart and holds the remaining columns, in column order, in
  the list \<open>chans\<close>: entry \<open>j\<close> of \<open>chans\<close> is column \<open>2 + j\<close> of the frame, so after
  the 26 names are assigned \<open>chans\<close> is \<^verbatim>\<open>columns[2:]\<close>, the 24 continuous channels.

  The integer columns are \<open>int64\<close> in pandas. Their values are integers here, and the
  arithmetic on them is written with its wrap-around (\<open>wrap64\<close>). A missing value of an
  integer column (the \<open>NaN\<close> a left merge writes where the right side has no match) is
  \<open>None\<close>; a column with a missing value is \<open>float64\<close> in pandas, and the arithmetic
  on it is written with the rounding of \<open>float64\<close> (\<open>f64_of_int\<close>).

  The channels are \<open>float64\<close>. The embedding computes the channels with exact reals:
  it leaves rounding, infinities and \<open>NaN\<close> channel cells out, and the statements about
  the normalised values of a channel whose values differ assume that the divisor of the
  normalisation does not exceed the largest \<open>float64\<close> number (\<open>f64_max\<close>), beyond
  which pandas computes with infinities.
\<close>

record row =
  rid :: int
  cycle :: int
  chans :: "real list"

text \<open>A row that also carries the derived column \<^verbatim>\<open>'RUL'\<close>.\<close>

record lrow = row +
  RUL :: "int option"

section \<open>Remaining-useful-life labels\<close>

text \<open>
  \<^verbatim>\<open>rul = pd.DataFrame(df.groupby('id')['cycle'].max()).reset_index()\<close>
  \<^verbatim>\<open>rul.columns = ['id', 'max']\<close>

  One line per distinct id, in increasing id order (groupby sorts its keys), carrying the
  largest cycle among the rows with that id.
\<close>

definition groupby_cycle_max :: "'a row_scheme list \<Rightarrow> (int \<times> int) list" where
  "groupby_cycle_max df =
     map (\<lambda>k. (k, Max (set (map cycle (filter (\<lambda>r. rid r = k) df)))))
         (sort (remdups (map rid df)))"

text \<open>
  Addition and subtraction of \<open>int64\<close> values: the result is taken modulo \<open>2^64\<close> into
  the range from \<open>-2^63\<close> to \<open>2^63 - 1\<close>.
\<close>

definition wrap64 :: "int \<Rightarrow> int" where
  "wrap64 x = (x + 2 ^ 63) mod 2 ^ 64 - 2 ^ 63"

definition i64_add :: "int \<Rightarrow> int \<Rightarrow> int" where
  "i64_add x y = wrap64 (x + y)"

definition i64_sub :: "int \<Rightarrow> int \<Rightarrow> int" where
  "i64_sub x y = wrap64 (x - y)"

text \<open>
  The \<open>float64\<close> number nearest to an integer, ties to the even significand. A
  \<open>float64\<close> has 53 significant bits: the numbers of magnitude below \<open>2^53\<close>
  (9007199254740992) are one apart, those below \<open>2^54\<close> two apart, and so on;
  \<open>quantum n\<close> is that distance at magnitude \<open>n\<close>. The integers of a frame are \<open>int64\<close>
  values, so that no sum or difference of two of them reaches the largest \<open>float64\<close>.
\<close>

function quantum :: "nat \<Rightarrow> nat" where
  "quantum n = (if n < 9007199254740992 then 1 else 2 * quantum (n div 2))"
  by pat_completeness auto
termination
  by (relation "measure id") auto

declare quantum.simps [simp del]

definition f64_of_int :: "int \<Rightarrow> int" where
  "f64_of_int x =
     (let q = int (quantum (nat \<bar>x\<bar>)); d = x div q; r = x mod q
      in (if 2 * r < q \<or> (2 * r = q \<and> even d) then d else d + 1) * q)"

text \<open>
  Addition and subtraction of \<open>float64\<close> values that are integers: the exact result,
  rounded.
\<close>

definition f64_add :: "int \<Rightarrow> int \<Rightarrow> int" where
  "f64_add x y = f64_of_int (x + y)"

definition f64_sub :: "int \<Rightarrow> int \<Rightarrow> int" where
  "f64_sub x y = f64_of_int (x - y)"

text \<open>
  An operation of pandas on two columns that may hold a missing value: the result is
  missing as soon as one operand is.
\<close>

definition na_lift :: "(int \<Rightarrow> int \<Rightarrow> int) \<Rightarrow> int option \<Rightarrow> int option \<Rightarrow> int option" where
  "na_lift f a b =
     (case a of None \<Rightarrow> None | Some x \<Rightarrow> (case b of None \<Rightarrow> None | Some y \<Rightarrow> Some (f x y)))"

text \<open>
  The body of the second loop of the training cell:
  \<^verbatim>\<open>df = df.merge(rul, on=['id'], how='left')\<close>
  \<^verbatim>\<open>df['RUL'] = df['max'] - df['cycle']\<close>
  \<^verbatim>\<open>df.drop('max', axis=1, inplace=True)\<close>

  The left merge keeps the rows of \<open>df\<close> in their order and gives each the \<open>max\<close> of the
  line of \<open>rul\<close> with its id (missing when there is none; \<open>rul\<close> has one line per id).
  Both columns of the subtraction are \<open>int64\<close>. This is the computation on a frame
  whose \<open>cycle\<close> column is numeric; \<open>label_train\<close> below is the loop body with the
  exception it raises on a frame whose \<open>cycle\<close> column is not.
\<close>

definition compute_rul_train :: "row list \<Rightarrow> lrow list" where
  "compute_rul_train df =
     (let rul = groupby_cycle_max df in
      map (\<lambda>r. \<lparr>rid = rid r, cycle = cycle r, chans = chans r,
                RUL = na_lift i64_sub (map_of rul (rid r)) (Some (cycle r))\<rparr>) df)"

text \<open>
  The labelling part of the body of the loop of the test cell. \<open>df_rul\<close> is the one
  column left of the reference file, in file order:
  \<^verbatim>\<open>df_rul.index += 1\<close>
  \<^verbatim>\<open>df = df.merge(df_rul, left_on=df.columns[0], right_index=True, how='left')\<close>
  The index of \<open>df_rul\<close> is \<open>1, 2, ..., len(df_rul)\<close>, so the left merge gives a row
  with id \<open>i\<close> the \<open>i\<close>-th value of the file, and a missing value when \<open>i\<close> is not
  an index of \<open>df_rul\<close>.
\<close>

definition RUL_end :: "int list \<Rightarrow> int \<Rightarrow> int option" where
  "RUL_end df_rul i =
     (if 1 \<le> i \<and> i \<le> int (length df_rul) then Some (df_rul ! nat (i - 1)) else None)"

text \<open>
  \<^verbatim>\<open>rul = pd.DataFrame(df.groupby('id')['cycle'].max()).reset_index()\<close>
  \<^verbatim>\<open>df = df.merge(rul, on=['id'], how='left')\<close>
  \<^verbatim>\<open>df['RUL'] = df['max'] + df['RUL_end'] - df['cycle']\<close>
  \<^verbatim>\<open>df.drop(['max','RUL_end'], axis=1, inplace=True)\<close>

  When every row has a reference value the column \<open>RUL_end\<close> is \<open>int64\<close> and so are the
  sum and the difference. When one row has none, the whole column \<open>RUL_end\<close> is
  \<open>float64\<close>: its values are the reference values converted, the \<open>int64\<close> columns
  \<open>max\<close> and \<open>cycle\<close> are converted for the addition and the subtraction, and both
  results are rounded.
\<close>

definition compute_rul_test :: "row list \<Rightarrow> int list \<Rightarrow> lrow list" where
  "compute_rul_test df df_rul =
     (let rul = groupby_cycle_max df;
          is_float = (None \<in> set (map (\<lambda>r. RUL_end df_rul (rid r)) df))
      in
      map (\<lambda>r. \<lparr>rid = rid r, cycle = cycle r, chans = chans r,
                RUL =
                  (if is_float
                   then na_lift f64_sub
                          (na_lift f64_add (map_option f64_of_int (map_of rul (rid r)))
                                           (map_option f64_of_int (RUL_end df_rul (rid r))))
                          (Some (f64_of_int (cycle r)))
                   else na_lift i64_sub
                          (na_lift i64_add (map_of rul (rid r)) (RUL_end df_rul (rid r)))
                          (Some (cycle r)))\<rparr>) df)"

section \<open>Normalisation\<close>

text \<open>\<^verbatim>\<open>eps = 0.000001 # for floating point issues during normalization\<close>\<close>

definition eps :: real where
  "eps = 1 / 1000000"


text \<open>Channel \<open>j\<close> of a frame, as the list of its values in row order.\<close>

definition column :: "nat \<Rightarrow> 'a row_scheme list \<Rightarrow> real list" where
  "column j df = map (\<lambda>r. chans r ! j) df"

text \<open>
  \<^verbatim>\<open>df[columns[2:]]=(df[columns[2:]]-df[columns[2:]].min()+eps)/(df[columns[2:]].max()-df[columns[2:]].min()+eps)\<close>

  \<open>min()\<close> and \<open>max()\<close> of a frame are taken column by column over all its rows, and
  the arithmetic between the frame and these two series is column-wise. Only the
  columns \<^verbatim>\<open>columns[2:]\<close> are assigned: once the names are assigned these are the
  24 columns that \<open>chans\<close> holds, all of them. The function is written for rows with
  any further columns, since the test cell applies it to a frame that already has
  \<open>RUL\<close>, a column that is not among \<^verbatim>\<open>columns[2:]\<close>. The values are those of pandas
  up to rounding as long as the divisor \<open>max - min + eps\<close> of a column is at most
  \<open>f64_max\<close>.
\<close>

definition normalize :: "'a row_scheme list \<Rightarrow> 'a row_scheme list" where
  "normalize df =
     map (\<lambda>r. r\<lparr>chans :=
                 map (\<lambda>j. (chans r ! j - Min (set (column j df)) + eps)
                           / (Max (set (column j df)) - Min (set (column j df)) + eps))
                     [0..<length (chans r)]\<rparr>) df"

section \<open>Reading the files and the two cells\<close>

text \<open>
  What a call of the notebook can raise. \<open>ReadError\<close> stands for any exception of
  \<^verbatim>\<open>pd.read_csv\<close> (a file that is not there, a line that does not parse);
  \<open>IndexError\<close> is raised by \<^verbatim>\<open>df.columns[[26, 27]]\<close> and
  \<^verbatim>\<open>df_rul.columns[1]\<close> on a frame with too few columns, \<open>ValueError\<close> by the
  assignment of column names whose number is not the number of columns, \<open>TypeError\<close>
  by the subtraction \<^verbatim>\<open>df['max'] - df['cycle']\<close> or the addition
  \<^verbatim>\<open>df['max'] + df['RUL_end']\<close> on a \<open>cycle\<close> column that is not numeric.
\<close>

datatype error = ReadError | IndexError | ValueError | TypeError

text \<open>
  A frame as \<^verbatim>\<open>pd.read_csv(..., delimiter=' ', header=None)\<close> returns it: \<open>ncols\<close>
  columns, of which the first two are the integer columns of \<open>rows\<close> and the others
  are in \<open>chans\<close>. The files end every line with two blanks, which gives the frame the
  two empty columns 26 and 27. Their cells are dropped unread, so the embedding gives
  them any value.
\<close>

record frame =
  ncols :: nat
  rows :: "row list"

text \<open>The reference file as read: its number of columns and its first column.\<close>

record rul_frame =
  rul_ncols :: nat
  rul_values :: "int list"

text \<open>\<^verbatim>\<open>df.drop(df.columns[[26, 27]], axis=1, inplace=True)\<close>\<close>

definition drop_26_27 :: "frame \<Rightarrow> error + frame" where
  "drop_26_27 df =
     (if ncols df \<le> 27 then Inl IndexError
      else Inr \<lparr>ncols = ncols df - 2,
                rows = map (\<lambda>r. r\<lparr>chans := take 24 (chans r) @ drop 26 (chans r)\<rparr>) (rows df)\<rparr>)"

text \<open>\<^verbatim>\<open>df.columns = columns\<close>, for a list of \<open>n\<close> names.\<close>

definition set_columns :: "nat \<Rightarrow> nat \<Rightarrow> 'a \<Rightarrow> error + 'a" where
  "set_columns n width df = (if width = n then Inr df else Inl ValueError)"

text \<open>\<^verbatim>\<open>df_rul.drop(df_rul.columns[1], axis=1, inplace=True)\<close>\<close>

definition drop_1 :: "rul_frame \<Rightarrow> error + rul_frame" where
  "drop_1 df_rul =
     (if rul_ncols df_rul \<le> 1 then Inl IndexError
      else Inr (df_rul\<lparr>rul_ncols := rul_ncols df_rul - 1\<rparr>))"

text \<open>
  The body of the first loop of the training cell, for one data set, on the cells of
  the frame. Its argument is what
  \<^verbatim>\<open>pd.read_csv('data/train_FD{:03d}.txt'.format(i), ...)\<close> returns or raises.
\<close>

definition load_train :: "error + frame \<Rightarrow> error + row list" where
  "load_train src =
     (case src of Inl e \<Rightarrow> Inl e | Inr raw \<Rightarrow>
      (case drop_26_27 raw of Inl e \<Rightarrow> Inl e | Inr df \<Rightarrow>
       (case set_columns 26 (ncols df) (rows df) of Inl e \<Rightarrow> Inl e | Inr df' \<Rightarrow>
        Inr (normalize df'))))"

text \<open>
  The body of the loop of the test cell, for one data set whose \<open>cycle\<close> column is
  numeric: the series file is read and
  its two last columns dropped, the reference file is read and its second column
  dropped, the two are merged (the merged frame has the columns of both), the 27 names
  \<^verbatim>\<open>columns + ['RUL_end']\<close> are assigned, the label is computed, and the channels
  are normalised.
\<close>

definition load_test :: "error + frame \<Rightarrow> error + rul_frame \<Rightarrow> error + lrow list" where
  "load_test src rul_src =
     (case src of Inl e \<Rightarrow> Inl e | Inr raw \<Rightarrow>
      (case drop_26_27 raw of Inl e \<Rightarrow> Inl e | Inr df \<Rightarrow>
       (case rul_src of Inl e \<Rightarrow> Inl e | Inr raw_rul \<Rightarrow>
        (case drop_1 raw_rul of Inl e \<Rightarrow> Inl e | Inr df_rul \<Rightarrow>
         (case set_columns 27 (ncols df + rul_ncols df_rul) (rows df) of Inl e \<Rightarrow> Inl e
          | Inr df' \<Rightarrow> Inr (normalize (compute_rul_test df' (rul_values df_rul))))))))"

text \<open>
  The type pandas gives the second column of a file: \<open>int64\<close> when every token of the
  column is an integer, \<open>object\<close> (the tokens as strings) when one is not a number.
  \<open>read_csv\<close> returns the frame with this type; when it is \<open>Object\<close> the \<open>cycle\<close>
  entries of the rows stand for strings and no arithmetic reads them.
\<close>

datatype dtype = Int64 | Object

record csv =
  cycle_dtype :: dtype
  cells :: frame

text \<open>
  The whole body of the first loop of the training cell. Nothing in it reads the
  \<open>cycle\<close> column (only \<^verbatim>\<open>columns[2:]\<close> is normalised), so that the type of the
  column plays no part and stays with the frame that is appended to \<open>train_df\<close>.
\<close>

definition train_body :: "error + csv \<Rightarrow> error + csv" where
  "train_body src =
     (case src of Inl e \<Rightarrow> Inl e | Inr raw \<Rightarrow>
      (case load_train (Inr (cells raw)) of Inl e \<Rightarrow> Inl e
       | Inr df \<Rightarrow> Inr (raw\<lparr>cells := \<lparr>ncols = 26, rows = df\<rparr>\<rparr>)))"

text \<open>
  The whole body of the second loop of the training cell, lines 81 to 85: on a \<open>cycle\<close>
  column of strings the subtraction of line 84 raises, on an \<open>int64\<close> column the label
  is computed.
\<close>

definition label_train :: "csv \<Rightarrow> error + lrow list" where
  "label_train df =
     (if cycle_dtype df = Object then Inl TypeError
      else Inr (compute_rul_train (rows (cells df))))"

text \<open>
  The whole body of the loop of the test cell. The exceptions of \<open>load_test\<close> are raised
  by the lines 110 to 120; on a \<open>cycle\<close> column of strings the addition of line 124
  raises after them.
\<close>

definition test_body :: "error + csv \<Rightarrow> error + rul_frame \<Rightarrow> error + lrow list" where
  "test_body src rul_src =
     (case src of Inl e \<Rightarrow> Inl e | Inr raw \<Rightarrow>
      (case load_test (Inr (cells raw)) rul_src of Inl e \<Rightarrow> Inl e
       | Inr df \<Rightarrow> (if cycle_dtype raw = Object then Inl TypeError else Inr df)))"

text \<open>
  \<^verbatim>\<open>for i in range(1,5): ...; train_df.append(df)\<close>

  The loop runs the body on the data sets in order and appends each frame to the list.
  Nothing in the notebook catches an exception: the first one that a body raises ends
  the loop and the cell, and leaves the list as it was at that moment. The result is
  the list together with the exception, if any.
\<close>

fun for_each_variant :: "('s \<Rightarrow> error + 't) \<Rightarrow> 's list \<Rightarrow> 't list \<Rightarrow> 't list \<times> error option" where
  "for_each_variant body [] acc = (acc, None)"
| "for_each_variant body (src # srcs) acc =
     (case body src of
        Inl e \<Rightarrow> (acc, Some e)
      | Inr df \<Rightarrow> for_each_variant body srcs (acc @ [df]))"

text \<open>An entry of \<open>train_df\<close>: a frame as loaded, or a labelled frame.\<close>

datatype entry = Loaded csv | Labelled "lrow list"

text \<open>
  \<^verbatim>\<open>for i, df in enumerate(train_df): ...; train_df[i]=df\<close>

  The labelling loop replaces the entries of \<open>train_df\<close> one after the other. The first
  exception ends the loop and the cell: the entries before it are labelled, the entry
  at which it is raised and the later ones are as loaded. \<open>labelled\<close> holds the entries
  already replaced.
\<close>

fun label_loop :: "csv list \<Rightarrow> lrow list list \<Rightarrow> entry list \<times> error option" where
  "label_loop [] labelled = (map Labelled labelled, None)"
| "label_loop (df # rest) labelled =
     (case label_train df of
        Inl e \<Rightarrow> (map Labelled labelled @ map Loaded (df # rest), Some e)
      | Inr l \<Rightarrow> label_loop rest (labelled @ [l]))"

text \<open>
  The training cell: the loading loop, then the labelling loop over the loaded frames.
  An exception of the first loop ends the cell before the second loop. The result is
  \<open>train_df\<close> as the cell leaves it, and the exception that ended it, if any.
\<close>

definition train_cell :: "(error + csv) list \<Rightarrow> entry list \<times> error option" where
  "train_cell srcs =
     (case for_each_variant train_body srcs [] of
        (train_df, Some e) \<Rightarrow> (map Loaded train_df, Some e)
      | (train_df, None) \<Rightarrow> label_loop train_df [])"

text \<open>
  The test cell: one loop over the pairs of series file and reference file. The result
  is \<open>test_df\<close> as the cell leaves it, and the exception that ended it, if any.
\<close>

definition test_cell ::
  "((error + csv) \<times> (error + rul_frame)) list \<Rightarrow> lrow list list \<times> error option" where
  "test_cell srcs = for_each_variant (\<lambda>(src, rul_src). test_body src rul_src) srcs []"

text \<open>
  Every row of a DataFrame has one cell per column. For a frame as read this says that
  \<open>chans\<close> holds all the columns but the first two.
\<close>

definition rectangular :: "frame \<Rightarrow> bool" where
  "rectangular df = list_all (\<lambda>r. length (chans r) + 2 = ncols df) (rows df)"

section \<open>Notions of the specification\<close>

text \<open>The largest cycle recorded for run \<open>k\<close> in a frame.\<close>

definition max_cycle :: "'a row_scheme list \<Rightarrow> int \<Rightarrow> int" where
  "max_cycle df k = Max (cycle ` {r \<in> set df. rid r = k})"

text \<open>The smallest and the largest value of channel \<open>j\<close> over all rows of a frame.\<close>

definition channel_min :: "'a row_scheme list \<Rightarrow> nat \<Rightarrow> real" where
  "channel_min df j = Min ((\<lambda>r. chans r ! j) ` set df)"

definition channel_max :: "'a row_scheme list \<Rightarrow> nat \<Rightarrow> real" where
  "channel_max df j = Max ((\<lambda>r. chans r ! j) ` set df)"

text \<open>The rows of a frame taken in the order \<open>p\<close> of their positions.\<close>

definition reorder :: "nat list \<Rightarrow> 'a list \<Rightarrow> 'a list" where
  "reorder p df = map (\<lambda>i. df ! i) p"

section \<open>Example frames\<close>

text \<open>
  A row with 24 channels: the first holds \<open>v\<close>, the 23 others the constant 5.
\<close>

definition ex_row :: "int \<Rightarrow> int \<Rightarrow> real \<Rightarrow> row" where
  "ex_row i c v = \<lparr>rid = i, cycle = c, chans = v # replicate 23 5\<rparr>"

text \<open>Two runs: run 1 with cycles 1, 3, 2 (out of order), run 2 with one cycle.\<close>

definition ex_df :: "row list" where
  "ex_df = [ex_row 1 1 10, ex_row 2 1 30, ex_row 1 3 30, ex_row 1 2 20]"

text \<open>The same rows as a file gives them: 28 columns, the last two empty.\<close>

definition ex_raw :: frame where
  "ex_raw = \<lparr>ncols = 28, rows = map (\<lambda>r. r\<lparr>chans := chans r @ [0, 0]\<rparr>) ex_df\<rparr>"

text \<open>A file whose lines do not end with blanks: 26 columns only.\<close>

definition ex_raw_26 :: frame where
  "ex_raw_26 = \<lparr>ncols = 26, rows = ex_df\<rparr>"

text \<open>Reference files with one value (for run 1 only) and with two values.\<close>

definition ex_rul_1 :: rul_frame where
  "ex_rul_1 = \<lparr>rul_ncols = 2, rul_values = [30]\<rparr>"

definition ex_rul_2 :: rul_frame where
  "ex_rul_2 = \<lparr>rul_ncols = 2, rul_values = [30, 7]\<rparr>"

text \<open>The files as read, with a numeric \<open>cycle\<close> column and with one of strings.\<close>

definition ex_csv :: csv where
  "ex_csv = \<lparr>cycle_dtype = Int64, cells = ex_raw\<rparr>"

definition ex_csv_26 :: csv where
  "ex_csv_26 = \<lparr>cycle_dtype = Int64, cells = ex_raw_26\<rparr>"

definition ex_csv_object :: csv where
  "ex_csv_object = \<lparr>cycle_dtype = Object, cells = ex_raw\<rparr>"

text \<open>The frames that the loading loop appends for the first and the third of these.\<close>

definition ex_loaded :: csv where
  "ex_loaded = \<lparr>cycle_dtype = Int64, cells = \<lparr>ncols = 26, rows = normalize ex_df\<rparr>\<rparr>"

definition ex_loaded_object :: csv where
  "ex_loaded_object = \<lparr>cycle_dtype = Object, cells = \<lparr>ncols = 26, rows = normalize ex_df\<rparr>\<rparr>"

section \<open>Properties\<close>

lemma map_of_groupby_cycle_max:
  "k \<in> rid ` set df \<Longrightarrow> map_of (groupby_cycle_max df) k = Some (max_cycle df k)"
proof -
  assume k: "k \<in> rid ` set df"
  have img: "set (map cycle (filter (\<lambda>r. rid r = k) df)) = cycle ` {r \<in> set df. rid r = k}"
    by auto
  have "map_of (map (\<lambda>k. (k, Max (set (map cycle (filter (\<lambda>r. rid r = k) df)))))
                    (sort (remdups (map rid df)))) k
        = Some (Max (set (map cycle (filter (\<lambda>r. rid r = k) df))))"
    using k by (intro map_of_map_restrict [THEN fun_cong, THEN trans]) (simp add: restrict_map_def)
  then show ?thesis
    unfolding groupby_cycle_max_def max_cycle_def img .
qed

lemma max_cycle_filter:
  "max_cycle df k = Max (set (map cycle (filter (\<lambda>r. rid r = k) df)))"
proof -
  have "set (map cycle (filter (\<lambda>r. rid r = k) df)) = cycle ` {r \<in> set df. rid r = k}"
    by auto
  then show ?thesis by (simp add: max_cycle_def)
qed

lemma max_cycle_set_cong:
  "set df' = set df \<Longrightarrow> max_cycle df' = max_cycle df"
  by (simp add: max_cycle_def fun_eq_iff)

lemma max_cycle_ge:
  "r \<in> set df \<Longrightarrow> cycle r \<le> max_cycle df (rid r)"
  unfolding max_cycle_def by (rule Max_ge) auto

lemma max_cycle_mem:
  assumes "r \<in> set df"
  shows "max_cycle df (rid r) \<in> cycle ` set df"
proof -
  have "Max (cycle ` {r' \<in> set df. rid r' = rid r}) \<in> cycle ` {r' \<in> set df. rid r' = rid r}"
    using assms by (intro Max_in) auto
  then show ?thesis
    unfolding max_cycle_def by auto
qed

lemma wrap64_id: "- (2 ^ 63) \<le> x \<Longrightarrow> x < 2 ^ 63 \<Longrightarrow> wrap64 x = x"
  by (simp add: wrap64_def)

lemma f64_of_int_id: "\<bar>x\<bar> < 9007199254740992 \<Longrightarrow> f64_of_int x = x"
proof -
  assume "\<bar>x\<bar> < 9007199254740992"
  then have "nat \<bar>x\<bar> < 9007199254740992"
    by simp
  then have "quantum (nat \<bar>x\<bar>) = 1"
    by (subst quantum.simps) simp
  then show ?thesis
    by (simp add: f64_of_int_def)
qed

lemma compute_rul_train_eq:
  "compute_rul_train df =
     map (\<lambda>r. \<lparr>rid = rid r, cycle = cycle r, chans = chans r,
               RUL = Some (wrap64 (max_cycle df (rid r) - cycle r))\<rparr>) df"
  unfolding compute_rul_train_def Let_def
  by (rule map_cong) (simp_all add: map_of_groupby_cycle_max na_lift_def i64_sub_def)

lemma compute_rul_test_eq:
  "compute_rul_test df df_rul =
     map (\<lambda>r. \<lparr>rid = rid r, cycle = cycle r, chans = chans r,
               RUL = (case RUL_end df_rul (rid r) of None \<Rightarrow> None
                      | Some e \<Rightarrow>
                          Some (if None \<in> set (map (\<lambda>r. RUL_end df_rul (rid r)) df)
                                then f64_sub (f64_add (f64_of_int (max_cycle df (rid r)))
                                                      (f64_of_int e))
                                             (f64_of_int (cycle r))
                                else i64_sub (i64_add (max_cycle df (rid r)) e) (cycle r)))\<rparr>) df"
  unfolding compute_rul_test_def Let_def
  by (rule map_cong)
     (simp_all add: map_of_groupby_cycle_max na_lift_def split: option.split)

text \<open>In the range of the cycle counts of the data sets both arithmetics are exact.\<close>

lemma train_label_exact:
  assumes "r \<in> set df" and "\<forall>r\<in>set df. 0 \<le> cycle r \<and> cycle r < 2 ^ 63"
  shows "wrap64 (max_cycle df (rid r) - cycle r) = max_cycle df (rid r) - cycle r"
proof -
  from max_cycle_mem [OF assms(1)] assms(2)
  have "max_cycle df (rid r) < 2 ^ 63"
    by auto
  moreover have "cycle r \<le> max_cycle df (rid r)"
    using assms(1) by (rule max_cycle_ge)
  moreover have "0 \<le> cycle r"
    using assms by blast
  ultimately show ?thesis
    by (intro wrap64_id) linarith+
qed

lemma test_label_exact:
  assumes "r \<in> set df" and "\<forall>r\<in>set df. 0 \<le> cycle r \<and> cycle r < 2 ^ 52"
    and "0 \<le> e" and "e < 2 ^ 52"
  shows "f64_sub (f64_add (f64_of_int (max_cycle df (rid r))) (f64_of_int e)) (f64_of_int (cycle r))
           = max_cycle df (rid r) + e - cycle r"
    and "i64_sub (i64_add (max_cycle df (rid r)) e) (cycle r) = max_cycle df (rid r) + e - cycle r"
proof -
  let ?m = "max_cycle df (rid r)"
  from max_cycle_mem [OF assms(1)] assms(2)
  have m: "0 \<le> ?m" "?m < 4503599627370496"
    by auto
  have c: "0 \<le> cycle r" "cycle r < 4503599627370496"
    using assms(1,2) by auto
  have e: "0 \<le> e" "e < 4503599627370496"
    using assms(3,4) by auto
  have "f64_of_int ?m = ?m" "f64_of_int e = e" "f64_of_int (cycle r) = cycle r"
    "f64_of_int (?m + e) = ?m + e" "f64_of_int (?m + e - cycle r) = ?m + e - cycle r"
    using m c e by (auto intro!: f64_of_int_id)
  then show "f64_sub (f64_add (f64_of_int ?m) (f64_of_int e)) (f64_of_int (cycle r)) = ?m + e - cycle r"
    by (simp add: f64_sub_def f64_add_def)
  have "wrap64 (?m + e) = ?m + e" "wrap64 (?m + e - cycle r) = ?m + e - cycle r"
    using m c e by (auto intro!: wrap64_id)
  then show "i64_sub (i64_add ?m e) (cycle r) = ?m + e - cycle r"
    by (simp add: i64_sub_def i64_add_def)
qed

lemma ex_df_cycles:
  "list_all (\<lambda>r. 0 \<le> cycle r \<and> cycle r < 2 ^ 63) ex_df"
  "list_all (\<lambda>r. 0 \<le> cycle r \<and> cycle r < 2 ^ 52) ex_df"
  by (simp_all add: ex_df_def ex_row_def)

subsection \<open>Labels of the training data\<close>

text \<open>
  C1. Training data, for a frame whose cycles are not negative (and are \<open>int64\<close>
  values, that is below \<open>2^63\<close>): row \<open>i\<close> of the labelled frame is row \<open>i\<close> of the frame
  with the label \<open>RUL = max_cycle - cycle\<close>, where \<open>max_cycle\<close> is the largest cycle
  among the rows of the frame that have the id of row \<open>i\<close>. No row is dropped, added or
  moved. (With a negative cycle the \<open>int64\<close> subtraction can wrap around.)
\<close>

theorem compute_rul_train_label:
  assumes "i < length df" and "\<forall>r\<in>set df. 0 \<le> cycle r \<and> cycle r < 2 ^ 63"
  shows "compute_rul_train df ! i =
           \<lparr>rid = rid (df ! i), cycle = cycle (df ! i), chans = chans (df ! i),
            RUL = Some (max_cycle df (rid (df ! i)) - cycle (df ! i))\<rparr>"
proof -
  have "df ! i \<in> set df"
    using assms(1) by simp
  then have "wrap64 (max_cycle df (rid (df ! i)) - cycle (df ! i))
               = max_cycle df (rid (df ! i)) - cycle (df ! i)"
    using assms(2) by (rule train_label_exact)
  then show ?thesis
    using assms(1) by (simp add: compute_rul_train_eq)
qed

theorem compute_rul_train_label_witness:
  "(2::nat) < length ex_df \<and> list_all (\<lambda>r. 0 \<le> cycle r \<and> cycle r < 2 ^ 63) ex_df \<and>
   compute_rul_train ex_df ! 2 = \<lparr>rid = 1, cycle = 3, chans = 30 # replicate 23 5, RUL = Some 0\<rparr>
   \<and> compute_rul_train ex_df ! 0 = \<lparr>rid = 1, cycle = 1, chans = 10 # replicate 23 5, RUL = Some 2\<rparr>"
proof -
  have h: "\<forall>r\<in>set ex_df. 0 \<le> cycle r \<and> cycle r < 2 ^ 63"
    using ex_df_cycles(1) by (simp add: list_all_iff)
  have n: "(2::nat) < length ex_df" "(0::nat) < length ex_df"
    by (simp_all add: ex_df_def)
  have v: "ex_df ! 2 = ex_row 1 3 30" "ex_df ! 0 = ex_row 1 1 10"
    "max_cycle ex_df 1 = 3"
    by (simp_all add: max_cycle_filter ex_df_def ex_row_def)
  from compute_rul_train_label [OF n(1) h] compute_rul_train_label [OF n(2) h]
  show ?thesis
    using n ex_df_cycles(1) by (simp add: v ex_row_def)
qed


text \<open>
  C7. In a labelled training frame whose cycles are not negative (and are \<open>int64\<close>
  values), of two rows of the same run the one with the larger cycle has the smaller or
  equal label, and the label of a row is 0 exactly when its cycle is the largest cycle
  of its run.
\<close>

theorem train_rul_monotone:
  assumes "i < length df" and "j < length df"
    and "rid (df ! i) = rid (df ! j)" and "cycle (df ! i) \<le> cycle (df ! j)"
    and "\<forall>r\<in>set df. 0 \<le> cycle r \<and> cycle r < 2 ^ 63"
  shows "(\<exists>a b. RUL (compute_rul_train df ! i) = Some a
               \<and> RUL (compute_rul_train df ! j) = Some b \<and> b \<le> a)
       \<and> (RUL (compute_rul_train df ! i) = Some 0
            \<longleftrightarrow> cycle (df ! i) = max_cycle df (rid (df ! i)))"
proof -
  have "df ! i \<in> set df" and "df ! j \<in> set df"
    using assms(1,2) by simp_all
  then have "wrap64 (max_cycle df (rid (df ! i)) - cycle (df ! i))
               = max_cycle df (rid (df ! i)) - cycle (df ! i)"
    and "wrap64 (max_cycle df (rid (df ! j)) - cycle (df ! j))
               = max_cycle df (rid (df ! j)) - cycle (df ! j)"
    using assms(5) by (simp_all add: train_label_exact)
  then show ?thesis
    using assms(1-4) by (auto simp: compute_rul_train_eq)
qed

theorem train_rul_monotone_witness:
  "(0::nat) < length ex_df \<and> (3::nat) < length ex_df \<and> rid (ex_df ! 0) = rid (ex_df ! 3)
   \<and> cycle (ex_df ! 0) \<le> cycle (ex_df ! 3)
   \<and> list_all (\<lambda>r. 0 \<le> cycle r \<and> cycle r < 2 ^ 63) ex_df
   \<and> (\<exists>a b. RUL (compute_rul_train ex_df ! 0) = Some a
             \<and> RUL (compute_rul_train ex_df ! 3) = Some b \<and> b \<le> a)
   \<and> RUL (compute_rul_train ex_df ! 0) \<noteq> Some 0"
proof -
  have h: "\<forall>r\<in>set ex_df. 0 \<le> cycle r \<and> cycle r < 2 ^ 63"
    using ex_df_cycles(1) by (simp add: list_all_iff)
  have n: "(0::nat) < length ex_df" "(3::nat) < length ex_df"
    "rid (ex_df ! 0) = rid (ex_df ! 3)" "cycle (ex_df ! 0) \<le> cycle (ex_df ! 3)"
    "cycle (ex_df ! 0) \<noteq> max_cycle ex_df (rid (ex_df ! 0))"
    by (simp_all add: max_cycle_filter ex_df_def ex_row_def)
  from train_rul_monotone [OF n(1-4) h] n ex_df_cycles(1) show ?thesis
    by simp
qed


lemma set_reorder:
  assumes "mset p = mset [0..<length df]"
  shows "set (reorder p df) = set df"
proof -
  have "set p = {0..<length df}"
    using assms by (metis mset_eq_setD set_upt)
  then have "set (reorder p df) = (\<lambda>i. df ! i) ` {0..<length df}"
    by (simp add: reorder_def)
  also have "\<dots> = set df"
    by (auto simp: set_conv_nth)
  finally show ?thesis .
qed

text \<open>
  C10. Labelling the rows of a training frame taken in any other order \<open>p\<close> (a
  permutation of the positions) gives the labelled rows of the frame in that same order:
  every row receives the label it has in the original order.
\<close>

theorem compute_rul_train_reorder:
  assumes "mset p = mset [0..<length df]"
  shows "compute_rul_train (reorder p df) = reorder p (compute_rul_train df)"
proof -
  have idx: "\<forall>i\<in>set p. i < length df"
    using assms by (metis mset_eq_setD set_upt atLeastLessThan_iff)
  have "max_cycle (reorder p df) = max_cycle df"
    by (rule max_cycle_set_cong) (rule set_reorder [OF assms])
  then show ?thesis
    using idx by (simp add: compute_rul_train_eq reorder_def)
qed

theorem compute_rul_train_reorder_witness:
  "mset [2, 0, 3, 1] = mset [0..<length ex_df] \<and>
   compute_rul_train (reorder [2, 0, 3, 1] ex_df) = reorder [2, 0, 3, 1] (compute_rul_train ex_df)"
proof -
  have p: "mset [2, 0, 3, 1] = mset [0..<length ex_df]"
    by (simp add: ex_df_def upt_rec numeral_eq_Suc)
  show ?thesis
    using p compute_rul_train_reorder [OF p] by blast
qed

subsection \<open>Labels of the test data\<close>

text \<open>
  C2. Test data, for cycles and reference values from 0 to below \<open>2^52\<close> (so that the
  sum and the difference are exact in \<open>int64\<close> and in \<open>float64\<close>, whichever pandas
  computes in): when the id \<open>k\<close> of row \<open>i\<close> is a position of the reference file
  (counting from 1), row \<open>i\<close> of the labelled frame is row \<open>i\<close> of the frame with the
  label \<open>RUL = max_cycle + true_RUL - cycle\<close>, where \<open>max_cycle\<close> is the largest cycle
  among the rows with id \<open>k\<close> and \<open>true_RUL\<close> is the \<open>k\<close>-th value of the reference file.
\<close>

theorem compute_rul_test_label:
  assumes "i < length df" and "1 \<le> rid (df ! i)" and "rid (df ! i) \<le> int (length df_rul)"
    and "\<forall>r\<in>set df. 0 \<le> cycle r \<and> cycle r < 2 ^ 52"
    and "\<forall>v\<in>set df_rul. 0 \<le> v \<and> v < 2 ^ 52"
  shows "compute_rul_test df df_rul ! i =
           \<lparr>rid = rid (df ! i), cycle = cycle (df ! i), chans = chans (df ! i),
            RUL = Some (max_cycle df (rid (df ! i)) + df_rul ! nat (rid (df ! i) - 1)
                        - cycle (df ! i))\<rparr>"
proof -
  let ?e = "df_rul ! nat (rid (df ! i) - 1)"
  have r: "df ! i \<in> set df"
    using assms(1) by simp
  have "?e \<in> set df_rul"
    using assms(2,3) by (intro nth_mem) linarith
  then have e: "0 \<le> ?e" "?e < 2 ^ 52"
    using assms(5) by auto
  note exact = test_label_exact [OF r assms(4) e]
  show ?thesis
    using assms(1-3) by (simp add: compute_rul_test_eq RUL_end_def exact)
qed

theorem compute_rul_test_label_witness:
  "(3::nat) < length ex_df \<and> 1 \<le> rid (ex_df ! 3) \<and> rid (ex_df ! 3) \<le> int (length [30, 7::int])
   \<and> list_all (\<lambda>r. 0 \<le> cycle r \<and> cycle r < 2 ^ 52) ex_df
   \<and> list_all (\<lambda>v. 0 \<le> v \<and> v < 2 ^ 52) [30, 7::int]
   \<and> compute_rul_test ex_df [30, 7] ! 3
       = \<lparr>rid = 1, cycle = 2, chans = 20 # replicate 23 5, RUL = Some 31\<rparr>
   \<and> compute_rul_test ex_df [30] ! 3
       = \<lparr>rid = 1, cycle = 2, chans = 20 # replicate 23 5, RUL = Some 31\<rparr>"
proof -
  have h: "\<forall>r\<in>set ex_df. 0 \<le> cycle r \<and> cycle r < 2 ^ 52"
    using ex_df_cycles(2) by (simp add: list_all_iff)
  have g: "\<forall>v\<in>set [30, 7::int]. 0 \<le> v \<and> v < 2 ^ 52" "\<forall>v\<in>set [30::int]. 0 \<le> v \<and> v < 2 ^ 52"
    by simp_all
  have n: "(3::nat) < length ex_df" "1 \<le> rid (ex_df ! 3)"
    "rid (ex_df ! 3) \<le> int (length [30, 7::int])" "rid (ex_df ! 3) \<le> int (length [30::int])"
    by (simp_all add: ex_df_def ex_row_def)
  have v: "ex_df ! 3 = ex_row 1 2 20" "max_cycle ex_df 1 = 3"
    by (simp_all add: max_cycle_filter ex_df_def ex_row_def)
  from compute_rul_test_label [OF n(1-3) h g(1)] compute_rul_test_label [OF n(1,2,4) h g(2)]
  show ?thesis
    using n ex_df_cycles(2) by (simp add: v ex_row_def)
qed

subsection \<open>Labels outside the exact range\<close>

text \<open>
  Outside the ranges of C1, C7 and C2 the labels are those of the machine arithmetic.
  A run with the cycles \<open>2^63 - 1\<close> and \<open>-1\<close>: the \<open>int64\<close> subtraction wraps around.
\<close>

lemma compute_rul_train_wraps:
  "map RUL (compute_rul_train
      [\<lparr>rid = 1, cycle = 9223372036854775807, chans = []\<rparr>, \<lparr>rid = 1, cycle = - 1, chans = []\<rparr>])
   = [Some 0, Some (- 9223372036854775808)]"
  by (simp add: compute_rul_train_eq max_cycle_filter wrap64_def)

text \<open>
  A reference value of \<open>2^53 + 1\<close>: with a run that has no reference value the column
  is \<open>float64\<close> and the label is rounded; without such a run it is \<open>int64\<close> and exact.
\<close>

lemma compute_rul_test_rounds:
  "map RUL (compute_rul_test
      [\<lparr>rid = 1, cycle = 1, chans = []\<rparr>, \<lparr>rid = 2, cycle = 1, chans = []\<rparr>]
      [9007199254740993])
   = [Some 9007199254740991, None]"
  by (simp add: compute_rul_test_eq max_cycle_filter RUL_end_def f64_sub_def f64_add_def
      f64_of_int_def quantum.simps)

lemma compute_rul_test_int64:
  "map RUL (compute_rul_test [\<lparr>rid = 1, cycle = 1, chans = []\<rparr>] [9007199254740993])
   = [Some 9007199254740993]"
  by (simp add: compute_rul_test_eq max_cycle_filter RUL_end_def i64_sub_def i64_add_def
      wrap64_def)

subsection \<open>Normalisation\<close>

lemma eps_pos: "0 < eps"
  by (simp add: eps_def)

lemma Min_column: "Min (set (column j df)) = channel_min df j"
  by (simp add: column_def channel_min_def)

lemma Max_column: "Max (set (column j df)) = channel_max df j"
  by (simp add: column_def channel_max_def)

lemma normalize_nth:
  assumes "i < length df" and "j < length (chans (df ! i))"
  shows "chans (normalize df ! i) ! j =
           (chans (df ! i) ! j - channel_min df j + eps)
             / (channel_max df j - channel_min df j + eps)"
  using assms by (simp add: normalize_def Min_column Max_column)

lemma channel_min_le:
  "i < length df \<Longrightarrow> channel_min df j \<le> chans (df ! i) ! j"
  unfolding channel_min_def by (rule Min_le) auto

lemma channel_max_ge:
  "i < length df \<Longrightarrow> chans (df ! i) ! j \<le> channel_max df j"
  unfolding channel_max_def by (rule Max_ge) auto

text \<open>
  The frames that reach the normalisation have the 26 named columns, that is 24
  channels in every row: the loading of a file that succeeds gives such a frame.
\<close>

lemma load_train_24_channels:
  assumes "rectangular raw" and "load_train (Inr raw) = Inr df"
  shows "\<forall>r\<in>set df. length (chans r) = 24"
proof -
  from assms(2) have w: "ncols raw = 28"
    and df: "df = normalize (map (\<lambda>r. r\<lparr>chans := take 24 (chans r) @ drop 26 (chans r)\<rparr>)
                                 (rows raw))"
    by (auto simp: load_train_def drop_26_27_def set_columns_def split: if_splits)
  from assms(1) w have "\<forall>r\<in>set (rows raw). length (chans r) = 26"
    by (auto simp: rectangular_def list_all_iff)
  then show ?thesis
    unfolding df by (auto simp: normalize_def)
qed

lemma load_test_24_channels:
  assumes "rectangular raw" and "load_test (Inr raw) rul_src = Inr df"
  shows "\<forall>r\<in>set df. length (chans r) = 24"
proof -
  from assms(2) obtain df_rul where w: "ncols raw = 28"
    and df: "df = normalize (compute_rul_test
                    (map (\<lambda>r. r\<lparr>chans := take 24 (chans r) @ drop 26 (chans r)\<rparr>) (rows raw))
                    df_rul)"
    by (auto simp: load_test_def drop_26_27_def drop_1_def set_columns_def
             split: if_splits sum.splits)
  from assms(1) w have "\<forall>r\<in>set (rows raw). length (chans r) = 26"
    by (auto simp: rectangular_def list_all_iff)
  then show ?thesis
    unfolding df by (auto simp: normalize_def compute_rul_test_def Let_def)
qed





text \<open>
  C8. In a channel whose values are all equal (largest value = smallest value) every
  normalised value is \<open>eps / eps = 1\<close>, and the divisor is not zero.
\<close>

theorem normalize_degenerate:
  assumes "\<forall>r\<in>set df. length (chans r) = 24" and "i < length df" and "j < 24"
    and "channel_max df j = channel_min df j"
  shows "chans (normalize df ! i) ! j = eps / eps \<and> eps / eps = 1
       \<and> channel_max df j - channel_min df j + eps \<noteq> 0"
proof -
  have len: "j < length (chans (df ! i))"
    using assms by simp
  have eq: "chans (normalize df ! i) ! j =
      (chans (df ! i) ! j - channel_min df j + eps) / (channel_max df j - channel_min df j + eps)"
    using assms(2) len by (rule normalize_nth)
  have "channel_min df j \<le> chans (df ! i) ! j" and "chans (df ! i) ! j \<le> channel_max df j"
    using assms(2) by (rule channel_min_le, rule channel_max_ge)
  then have "chans (df ! i) ! j = channel_min df j"
    using assms(4) by simp
  then show ?thesis
    using eq assms(4) eps_pos by simp
qed

theorem normalize_degenerate_witness:
  "list_all (\<lambda>r. length (chans r) = 24) ex_df \<and> (1::nat) < length ex_df \<and> (7::nat) < 24
   \<and> channel_max ex_df 7 = channel_min ex_df 7
   \<and> chans (normalize ex_df ! 1) ! 7 = 1"
proof -
  have h: "\<forall>r\<in>set ex_df. length (chans r) = 24"
    by (simp add: ex_df_def ex_row_def)
  have v: "channel_max ex_df 7 = channel_min ex_df 7"
    by (simp add: channel_max_def channel_min_def ex_df_def ex_row_def)
  have n: "(1::nat) < length ex_df"
    by (simp add: ex_df_def)
  from normalize_degenerate [OF h n _ v] h n v show ?thesis
    by (simp add: list_all_iff)
qed

lemma normalize_row:
  "i < length df \<Longrightarrow> \<exists>c. normalize df ! i = (df ! i)\<lparr>chans := c\<rparr>"
  by (simp add: normalize_def) blast

text \<open>
  C9. Normalisation keeps the number and the order of the rows and changes nothing but
  the channels: the id, the cycle and every further column of each row are as before. For
  a labelled frame, as in the test cell, the \<open>RUL\<close> column is as before.
\<close>

theorem normalize_frame:
  "length (normalize df) = length df
   \<and> (\<forall>i<length df. rid (normalize df ! i) = rid (df ! i)
          \<and> cycle (normalize df ! i) = cycle (df ! i)
          \<and> row.more (normalize df ! i) = row.more (df ! i))
   \<and> (\<forall>i<length ldf. RUL (normalize ldf ! i) = RUL (ldf ! i))"
proof -
  have len: "length (normalize df) = length df"
    by (simp add: normalize_def)
  have cols: "rid (normalize df ! i) = rid (df ! i) \<and> cycle (normalize df ! i) = cycle (df ! i)
      \<and> row.more (normalize df ! i) = row.more (df ! i)" if "i < length df" for i
    using normalize_row [OF that] by auto
  have label: "RUL (normalize ldf ! i) = RUL (ldf ! i)" if "i < length ldf" for i
    using normalize_row [OF that] by auto
  from len cols label show ?thesis
    by blast
qed

theorem normalize_frame_witness:
  "(1::nat) < length (compute_rul_test ex_df [30]) \<and>
   RUL (normalize (compute_rul_test ex_df [30]) ! 1) = None \<and>
   rid (normalize (compute_rul_test ex_df [30]) ! 1) = 2 \<and>
   cycle (normalize (compute_rul_test ex_df [30]) ! 1) = 1"
  using normalize_frame [of "compute_rul_test ex_df [30]" "compute_rul_test ex_df [30]"]
  by (simp add: compute_rul_test_eq RUL_end_def ex_df_def ex_row_def)


subsection \<open>A run without reference value\<close>

lemma load_test_eq:
  assumes "ncols raw = 28" and "rul_ncols raw_rul = 2"
  shows "load_test (Inr raw) (Inr raw_rul) =
    Inr (normalize (compute_rul_test
          (map (\<lambda>r. r\<lparr>chans := take 24 (chans r) @ drop 26 (chans r)\<rparr>) (rows raw))
          (rul_values raw_rul)))"
  using assms by (simp add: load_test_def drop_26_27_def drop_1_def set_columns_def)

text \<open>
  C4, as stated, fails: in the example the series has a run 2 and the reference file has
  one value only. Loading the test data raises nothing; the row of run 2 has a missing
  label and the rows of run 1 have theirs.
\<close>

theorem load_test_missing_reference_counterexample:
  "RUL_end (rul_values ex_rul_1) 2 = None
   \<and> \<not> isl (load_test (Inr ex_raw) (Inr ex_rul_1))
   \<and> map rid (projr (load_test (Inr ex_raw) (Inr ex_rul_1))) = [1, 2, 1, 1]
   \<and> map RUL (projr (load_test (Inr ex_raw) (Inr ex_rul_1))) = [Some 32, None, Some 30, Some 31]"
proof -
  have "ncols ex_raw = 28" and "rul_ncols ex_rul_1 = 2"
    by (simp_all add: ex_raw_def ex_rul_1_def)
  then have "load_test (Inr ex_raw) (Inr ex_rul_1) =
    Inr (normalize (compute_rul_test
          (map (\<lambda>r. r\<lparr>chans := take 24 (chans r) @ drop 26 (chans r)\<rparr>) (rows ex_raw))
          (rul_values ex_rul_1)))"
    by (rule load_test_eq)
  then show ?thesis
    by (simp add: normalize_def compute_rul_test_eq RUL_end_def max_cycle_filter
        f64_sub_def f64_add_def f64_of_int_id
        ex_raw_def ex_rul_1_def ex_df_def ex_row_def)
qed

text \<open>
  C4, amended. For files of the expected widths the loading of the test data raises
  nothing, whatever the ids: it gives one labelled row per row of the series, with the
  id and the cycle of that row, and the label of a row is missing exactly when its id is
  not a position of the reference file.
\<close>

theorem load_test_missing_reference:
  assumes "ncols raw = 28" and "rul_ncols raw_rul = 2"
  shows "\<exists>out. load_test (Inr raw) (Inr raw_rul) = Inr out \<and> length out = length (rows raw)
     \<and> (\<forall>i<length (rows raw).
          rid (out ! i) = rid (rows raw ! i) \<and> cycle (out ! i) = cycle (rows raw ! i)
          \<and> (RUL (out ! i) = None
               \<longleftrightarrow> \<not> (1 \<le> rid (rows raw ! i) \<and> rid (rows raw ! i) \<le> int (length (rul_values raw_rul)))))"
  unfolding load_test_eq [OF assms]
  by (simp add: normalize_def compute_rul_test_eq RUL_end_def)

theorem load_test_missing_reference_witness:
  "ncols ex_raw = 28 \<and> rul_ncols ex_rul_1 = 2 \<and> (1::nat) < length (rows ex_raw)
   \<and> \<not> isl (load_test (Inr ex_raw) (Inr ex_rul_1))
   \<and> RUL (projr (load_test (Inr ex_raw) (Inr ex_rul_1)) ! 1) = None"
proof -
  have h: "ncols ex_raw = 28" "rul_ncols ex_rul_1 = 2"
    by (simp_all add: ex_raw_def ex_rul_1_def)
  have r: "(1::nat) < length (rows ex_raw)" "rid (rows ex_raw ! 1) = 2" "length (rul_values ex_rul_1) = 1"
    by (simp_all add: ex_raw_def ex_rul_1_def ex_df_def ex_row_def)
  from load_test_missing_reference [OF h] h r show ?thesis
    by auto
qed

subsection \<open>The loops over the data sets\<close>

lemma for_each_variant_all_ok:
  "\<forall>s\<in>set srcs. \<not> isl (body s)
   \<Longrightarrow> for_each_variant body srcs acc = (acc @ map (\<lambda>s. projr (body s)) srcs, None)"
proof (induction srcs arbitrary: acc)
  case Nil
  show ?case by simp
next
  case (Cons s srcs)
  from Cons.prems obtain t where t: "body s = Inr t"
    by (cases "body s") auto
  from Cons.prems have "\<forall>s\<in>set srcs. \<not> isl (body s)"
    by simp
  then have "for_each_variant body srcs (acc @ [t]) = ((acc @ [t]) @ map (\<lambda>s. projr (body s)) srcs, None)"
    by (rule Cons.IH)
  then show ?case
    using t by simp
qed

lemma for_each_variant_first_failure:
  "\<forall>s\<in>set pre. \<not> isl (body s) \<Longrightarrow> body s = Inl e
   \<Longrightarrow> for_each_variant body (pre @ s # post) acc = (acc @ map (\<lambda>s. projr (body s)) pre, Some e)"
proof (induction pre arbitrary: acc)
  case Nil
  then show ?case by simp
next
  case (Cons a pre)
  from Cons.prems obtain t where t: "body a = Inr t"
    by (cases "body a") auto
  from Cons.prems have "\<forall>s\<in>set pre. \<not> isl (body s)"
    by simp
  then have "for_each_variant body (pre @ s # post) (acc @ [t])
               = ((acc @ [t]) @ map (\<lambda>s. projr (body s)) pre, Some e)"
    using Cons.prems(2) by (rule Cons.IH)
  then show ?case
    using t by simp
qed

lemma label_loop_all_ok:
  "\<forall>df\<in>set dfs. \<not> isl (label_train df)
   \<Longrightarrow> label_loop dfs acc = (map Labelled (acc @ map (\<lambda>df. projr (label_train df)) dfs), None)"
proof (induction dfs arbitrary: acc)
  case Nil
  show ?case by simp
next
  case (Cons df dfs)
  from Cons.prems obtain l where l: "label_train df = Inr l"
    by (cases "label_train df") auto
  from Cons.prems have "\<forall>df\<in>set dfs. \<not> isl (label_train df)"
    by simp
  then have "label_loop dfs (acc @ [l])
               = (map Labelled ((acc @ [l]) @ map (\<lambda>df. projr (label_train df)) dfs), None)"
    by (rule Cons.IH)
  then show ?case
    using l by simp
qed

lemma label_loop_first_failure:
  "\<forall>df\<in>set pre. \<not> isl (label_train df) \<Longrightarrow> label_train d = Inl e
   \<Longrightarrow> label_loop (pre @ d # post) acc
       = (map Labelled (acc @ map (\<lambda>df. projr (label_train df)) pre) @ map Loaded (d # post),
          Some e)"
proof (induction pre arbitrary: acc)
  case Nil
  then show ?case by simp
next
  case (Cons a pre)
  from Cons.prems obtain l where l: "label_train a = Inr l"
    by (cases "label_train a") auto
  from Cons.prems have "\<forall>df\<in>set pre. \<not> isl (label_train df)"
    by simp
  then have "label_loop (pre @ d # post) (acc @ [l])
       = (map Labelled ((acc @ [l]) @ map (\<lambda>df. projr (label_train df)) pre) @ map Loaded (d # post),
          Some e)"
    using Cons.prems(2) by (rule Cons.IH)
  then show ?case
    using l by simp
qed

text \<open>When the bodies raise.\<close>

lemma label_train_raises:
  "isl (label_train df) \<longleftrightarrow> cycle_dtype df = Object"
  by (simp add: label_train_def)

lemma train_body_raises:
  "isl (train_body src) \<longleftrightarrow> (case src of Inl e \<Rightarrow> True | Inr raw \<Rightarrow> ncols (cells raw) \<noteq> 28)"
  by (auto simp: train_body_def load_train_def drop_26_27_def set_columns_def split: sum.splits)

lemma train_body_dtype:
  "train_body (Inr raw) = Inr df \<Longrightarrow> cycle_dtype df = cycle_dtype raw"
  by (auto simp: train_body_def split: sum.splits)

lemma drop_26_27_ex_raw: "drop_26_27 ex_raw = Inr \<lparr>ncols = 26, rows = ex_df\<rparr>"
  by (simp add: drop_26_27_def ex_raw_def ex_df_def ex_row_def)

lemma load_train_ex_raw: "load_train (Inr ex_raw) = Inr (normalize ex_df)"
  by (simp add: load_train_def drop_26_27_ex_raw set_columns_def)

lemma load_train_ex_raw_26: "load_train (Inr ex_raw_26) = Inl IndexError"
  by (simp add: load_train_def drop_26_27_def ex_raw_26_def)

lemma train_body_ex:
  "train_body (Inr ex_csv) = Inr ex_loaded"
  "train_body (Inr ex_csv_26) = Inl IndexError"
  "train_body (Inr ex_csv_object) = Inr ex_loaded_object"
  by (simp_all add: train_body_def ex_csv_def ex_csv_26_def ex_csv_object_def ex_loaded_def
      ex_loaded_object_def load_train_ex_raw load_train_ex_raw_26)

lemma label_train_ex:
  "label_train ex_loaded = Inr (compute_rul_train (normalize ex_df))"
  "label_train ex_loaded_object = Inl TypeError"
  by (simp_all add: label_train_def ex_loaded_def ex_loaded_object_def)

lemma test_body_ex:
  "test_body (Inr ex_csv) (Inr ex_rul_2) = Inr (projr (load_test (Inr ex_raw) (Inr ex_rul_2)))"
  "test_body (Inr ex_csv_object) (Inr ex_rul_2) = Inl TypeError"
proof -
  have "ncols ex_raw = 28" and "rul_ncols ex_rul_2 = 2"
    by (simp_all add: ex_raw_def ex_rul_2_def)
  then have ok: "\<exists>out. load_test (Inr ex_raw) (Inr ex_rul_2) = Inr out"
    by (simp add: load_test_eq)
  then show "test_body (Inr ex_csv) (Inr ex_rul_2) = Inr (projr (load_test (Inr ex_raw) (Inr ex_rul_2)))"
    by (auto simp: test_body_def ex_csv_def)
  from ok show "test_body (Inr ex_csv_object) (Inr ex_rul_2) = Inl TypeError"
    by (auto simp: test_body_def ex_csv_object_def)
qed

text \<open>
  C5, as stated, fails. Each of the files of the example loads and is labelled on its
  own. With a second file of 26 columns the training cell ends with the \<open>IndexError\<close>
  of that file: the list holds the first frame only, not labelled, and the third and
  fourth files are never read. With a second file whose \<open>cycle\<close> column is not
  numeric the cell ends with the \<open>TypeError\<close> of its labelling: the first frame is
  labelled, the third and the fourth are loaded and never labelled.
\<close>

theorem train_cell_isolation_counterexample:
  "train_body (Inr ex_csv) = Inr ex_loaded
   \<and> label_train ex_loaded = Inr (compute_rul_train (normalize ex_df))
   \<and> train_cell [Inr ex_csv, Inr ex_csv_26, Inr ex_csv, Inr ex_csv]
       = ([Loaded ex_loaded], Some IndexError)
   \<and> train_cell [Inr ex_csv, Inr ex_csv_object, Inr ex_csv, Inr ex_csv]
       = ([Labelled (compute_rul_train (normalize ex_df)),
           Loaded ex_loaded_object, Loaded ex_loaded, Loaded ex_loaded], Some TypeError)"
  by (simp add: train_cell_def train_body_ex label_train_ex)

text \<open>
  C5, amended. Both cells run the data sets in order with no boundary around a data
  set; the first exception ends the cell.
  \<^item> Training cell, an exception of the loading of a data set (and of none before it): the
    cell ends with it; the list holds the loaded frames of the data sets before it, not
    labelled, and nothing of the later ones.
  \<^item> Training cell, every data set loads and the labelling of one raises (and of none
    before it): the cell ends with that exception; the frames of the data sets before it
    are labelled, its own and the later ones are in the list as loaded.
  \<^item> Training cell, nothing raises: the list holds the labelled frame of every data set.
  \<^item> Test cell, the body raises for a data set (and for none before it): the cell ends
    with that exception and the list holds the frames of the data sets before it.
  \<^item> Test cell, nothing raises: the list holds the frame of every data set.
\<close>

theorem cells_stop_at_first_failure:
  "((\<forall>s\<in>set pre. \<not> isl (train_body s)) \<and> train_body s = Inl e
      \<longrightarrow> train_cell (pre @ s # post)
            = (map (\<lambda>s. Loaded (projr (train_body s))) pre, Some e))
   \<and> ((\<forall>s\<in>set (lpre @ ls # lpost). \<not> isl (train_body s))
       \<and> (\<forall>s\<in>set lpre. \<not> isl (label_train (projr (train_body s))))
       \<and> label_train (projr (train_body ls)) = Inl le
      \<longrightarrow> train_cell (lpre @ ls # lpost)
            = (map (\<lambda>s. Labelled (projr (label_train (projr (train_body s))))) lpre
               @ map (\<lambda>s. Loaded (projr (train_body s))) (ls # lpost), Some le))
   \<and> ((\<forall>s\<in>set srcs. \<not> isl (train_body s) \<and> \<not> isl (label_train (projr (train_body s))))
      \<longrightarrow> train_cell srcs
            = (map (\<lambda>s. Labelled (projr (label_train (projr (train_body s))))) srcs, None))
   \<and> ((\<forall>(a, b)\<in>set tpre. \<not> isl (test_body a b)) \<and> test_body ts tr = Inl te
      \<longrightarrow> test_cell (tpre @ (ts, tr) # tpost)
            = (map (\<lambda>(a, b). projr (test_body a b)) tpre, Some te))
   \<and> ((\<forall>(a, b)\<in>set tsrcs. \<not> isl (test_body a b))
      \<longrightarrow> test_cell tsrcs = (map (\<lambda>(a, b). projr (test_body a b)) tsrcs, None))"
proof (intro conjI impI)
  assume "(\<forall>s\<in>set pre. \<not> isl (train_body s)) \<and> train_body s = Inl e"
  then show "train_cell (pre @ s # post)
               = (map (\<lambda>s. Loaded (projr (train_body s))) pre, Some e)"
    by (simp add: train_cell_def for_each_variant_first_failure comp_def)
next
  let ?all = "lpre @ ls # lpost"
  assume a: "(\<forall>s\<in>set ?all. \<not> isl (train_body s))
       \<and> (\<forall>s\<in>set lpre. \<not> isl (label_train (projr (train_body s))))
       \<and> label_train (projr (train_body ls)) = Inl le"
  then have "for_each_variant train_body ?all [] = ([] @ map (\<lambda>s. projr (train_body s)) ?all, None)"
    by (intro for_each_variant_all_ok) blast
  moreover have "label_loop (map (\<lambda>s. projr (train_body s)) lpre
                     @ projr (train_body ls) # map (\<lambda>s. projr (train_body s)) lpost) []
      = (map Labelled ([] @ map (\<lambda>df. projr (label_train df)) (map (\<lambda>s. projr (train_body s)) lpre))
           @ map Loaded (projr (train_body ls) # map (\<lambda>s. projr (train_body s)) lpost), Some le)"
    using a by (intro label_loop_first_failure) auto
  ultimately show "train_cell ?all
            = (map (\<lambda>s. Labelled (projr (label_train (projr (train_body s))))) lpre
               @ map (\<lambda>s. Loaded (projr (train_body s))) (ls # lpost), Some le)"
    by (simp add: train_cell_def comp_def)
next
  assume a: "\<forall>s\<in>set srcs. \<not> isl (train_body s) \<and> \<not> isl (label_train (projr (train_body s)))"
  then have "for_each_variant train_body srcs [] = ([] @ map (\<lambda>s. projr (train_body s)) srcs, None)"
    by (intro for_each_variant_all_ok) blast
  moreover have "label_loop (map (\<lambda>s. projr (train_body s)) srcs) []
      = (map Labelled ([] @ map (\<lambda>df. projr (label_train df)) (map (\<lambda>s. projr (train_body s)) srcs)),
         None)"
    using a by (intro label_loop_all_ok) auto
  ultimately show "train_cell srcs
            = (map (\<lambda>s. Labelled (projr (label_train (projr (train_body s))))) srcs, None)"
    by (simp add: train_cell_def comp_def)
next
  let ?body = "\<lambda>(src, rul_src). test_body src rul_src"
  assume a: "(\<forall>(a, b)\<in>set tpre. \<not> isl (test_body a b)) \<and> test_body ts tr = Inl te"
  then have "\<forall>s\<in>set tpre. \<not> isl (?body s)" and "?body (ts, tr) = Inl te"
    by auto
  then have "for_each_variant ?body (tpre @ (ts, tr) # tpost) []
               = ([] @ map (\<lambda>s. projr (?body s)) tpre, Some te)"
    by (rule for_each_variant_first_failure)
  then show "test_cell (tpre @ (ts, tr) # tpost)
               = (map (\<lambda>(a, b). projr (test_body a b)) tpre, Some te)"
    by (simp add: test_cell_def case_prod_unfold)
next
  let ?body = "\<lambda>(src, rul_src). test_body src rul_src"
  assume "\<forall>(a, b)\<in>set tsrcs. \<not> isl (test_body a b)"
  then have "\<forall>s\<in>set tsrcs. \<not> isl (?body s)"
    by auto
  then have "for_each_variant ?body tsrcs [] = ([] @ map (\<lambda>s. projr (?body s)) tsrcs, None)"
    by (rule for_each_variant_all_ok)
  then show "test_cell tsrcs = (map (\<lambda>(a, b). projr (test_body a b)) tsrcs, None)"
    by (simp add: test_cell_def case_prod_unfold)
qed

theorem cells_stop_at_first_failure_witness:
  "list_all (\<lambda>s. \<not> isl (train_body s)) [Inr ex_csv]
   \<and> train_body (Inr ex_csv_26) = Inl IndexError
   \<and> train_cell ([Inr ex_csv] @ Inr ex_csv_26 # [Inr ex_csv, Inr ex_csv])
       = ([Loaded ex_loaded], Some IndexError)
   \<and> list_all (\<lambda>s. \<not> isl (train_body s)) ([Inr ex_csv] @ Inr ex_csv_object # [Inr ex_csv, Inr ex_csv])
   \<and> list_all (\<lambda>s. \<not> isl (label_train (projr (train_body s)))) [Inr ex_csv]
   \<and> label_train (projr (train_body (Inr ex_csv_object))) = Inl TypeError
   \<and> train_cell ([Inr ex_csv] @ Inr ex_csv_object # [Inr ex_csv, Inr ex_csv])
       = ([Labelled (compute_rul_train (normalize ex_df)),
           Loaded ex_loaded_object, Loaded ex_loaded, Loaded ex_loaded], Some TypeError)
   \<and> list_all (\<lambda>s. \<not> isl (train_body s) \<and> \<not> isl (label_train (projr (train_body s))))
        [Inr ex_csv, Inr ex_csv, Inr ex_csv, Inr ex_csv]
   \<and> train_cell [Inr ex_csv, Inr ex_csv, Inr ex_csv, Inr ex_csv]
       = (replicate 4 (Labelled (compute_rul_train (normalize ex_df))), None)
   \<and> list_all (\<lambda>(a, b). \<not> isl (test_body a b)) [(Inr ex_csv, Inr ex_rul_2)]
   \<and> test_body (Inr ex_csv_object) (Inr ex_rul_2) = Inl TypeError
   \<and> test_cell ([(Inr ex_csv, Inr ex_rul_2)] @ (Inr ex_csv_object, Inr ex_rul_2)
                  # [(Inr ex_csv, Inr ex_rul_2), (Inr ex_csv, Inr ex_rul_2)])
       = ([projr (load_test (Inr ex_raw) (Inr ex_rul_2))], Some TypeError)
   \<and> list_all (\<lambda>(a, b). \<not> isl (test_body a b)) (replicate 4 (Inr ex_csv, Inr ex_rul_2))
   \<and> test_cell (replicate 4 (Inr ex_csv, Inr ex_rul_2))
       = (replicate 4 (projr (load_test (Inr ex_raw) (Inr ex_rul_2))), None)"
proof -
  note ex = train_body_ex label_train_ex test_body_ex
  have a: "\<forall>s\<in>set [Inr ex_csv]. \<not> isl (train_body s)"
    "\<forall>s\<in>set ([Inr ex_csv] @ Inr ex_csv_object # [Inr ex_csv, Inr ex_csv]). \<not> isl (train_body s)"
    "\<forall>s\<in>set [Inr ex_csv]. \<not> isl (label_train (projr (train_body s)))"
    "\<forall>s\<in>set [Inr ex_csv, Inr ex_csv, Inr ex_csv, Inr ex_csv].
        \<not> isl (train_body s) \<and> \<not> isl (label_train (projr (train_body s)))"
    by (simp_all add: ex)
  have b: "train_body (Inr ex_csv_26) = Inl IndexError"
    "label_train (projr (train_body (Inr ex_csv_object))) = Inl TypeError"
    "test_body (Inr ex_csv_object) (Inr ex_rul_2) = Inl TypeError"
    by (simp_all add: ex)
  have c: "\<forall>(a, b)\<in>set [(Inr ex_csv, Inr ex_rul_2)]. \<not> isl (test_body a b)"
    "\<forall>(a, b)\<in>set (replicate 4 (Inr ex_csv, Inr ex_rul_2)). \<not> isl (test_body a b)"
    by (simp_all add: ex)
  from cells_stop_at_first_failure [of "[Inr ex_csv]" "Inr ex_csv_26" IndexError
      "[Inr ex_csv, Inr ex_csv]"
      "[Inr ex_csv]" "Inr ex_csv_object" "[Inr ex_csv, Inr ex_csv]" TypeError
      "[Inr ex_csv, Inr ex_csv, Inr ex_csv, Inr ex_csv]"
      "[(Inr ex_csv, Inr ex_rul_2)]" "Inr ex_csv_object" "Inr ex_rul_2" TypeError
      "[(Inr ex_csv, Inr ex_rul_2), (Inr ex_csv, Inr ex_rul_2)]"
      "replicate 4 (Inr ex_csv, Inr ex_rul_2)"] a b c
  show ?thesis
    by (simp add: ex numeral_eq_Suc list_all_iff)
qed

end
